theory Spec2Isabelle
  imports Main "HOL-Library.Word"
begin

unbundle bit_operations_syntax

section \<open>Data model\<close>

text \<open>
  The repository holds three evolutions of one program: \<^verbatim>\<open>src/main.go\<close> and the two
  snapshots in \<^verbatim>\<open>src/unnamed/part_001\<close>. The types, \<^verbatim>\<open>callRPCMethod\<close>, \<^verbatim>\<open>toJSON\<close>,
  \<^verbatim>\<open>ParseHexUint64\<close> and \<^verbatim>\<open>ParseToAnySlice\<close> are the same text in all three. The
  public operations differ; the ones of \<^verbatim>\<open>main.go\<close> keep their names, the ones of the
  snapshots carry the suffix \<open>_part001\<close> (both snapshots), \<open>_part001a\<close> (first snapshot,
  lines 1-299) or \<open>_part001b\<close> (second snapshot, lines 300-578).
\<close>

type_synonym uint64 = "64 word"

record Transaction =
  Hash :: string
  BlockNumber :: string
  From :: string
  To :: string
  Value :: string

record Block =
  Hash :: string
  Transactions :: "Transaction list"

text \<open>
  A value of Go's \<^verbatim>\<open>interface{}\<close> as \<^verbatim>\<open>encoding/json\<close> decodes it (bool, float64, string,
  slice, map); a number is kept as its literal text. \<^verbatim>\<open>nil\<close> is \<open>None\<close> in the field
  \<open>Error\<close> below.
\<close>

datatype json_value =
    JBool bool
  | JNumber string
  | JString string
  | JArray "json_value list"
  | JObject "(string \<times> json_value) list"

record RPCResponse =
  Result :: string
  Error :: "json_value option"
  ID :: int

text \<open>The values the code passes as \<^verbatim>\<open>params ...interface{}\<close>: a string and a bool.\<close>

datatype param = ParamString string | ParamBool bool

text \<open>
  Go's \<^verbatim>\<open>error\<close> values, one constructor per place a non-nil error comes from:
  \<^item> \<open>PostError\<close>: the error of \<^verbatim>\<open>http.Post\<close>, returned as it is;
  \<^item> \<open>DecodeError\<close>: the error of \<^verbatim>\<open>json.NewDecoder(resp.Body).Decode\<close>, returned as it is;
  \<^item> \<open>JSONRPCError\<close>: \<^verbatim>\<open>fmt.Errorf("JSON-RPC error: %v", response.Error)\<close>;
  \<^item> \<open>ParseDetailsError\<close>: \<^verbatim>\<open>fmt.Errorf("failed to parse response details: %v", err)\<close>;
  \<^item> \<open>SyntaxError\<close>, \<open>RangeError\<close>: the \<^verbatim>\<open>*strconv.NumError\<close> of \<^verbatim>\<open>strconv.ParseUint\<close> with
    \<^verbatim>\<open>ErrSyntax\<close> and \<^verbatim>\<open>ErrRange\<close>, carrying the string that was parsed;
  \<^item> \<open>NotSubscribedError\<close>: \<^verbatim>\<open>fmt.Errorf("Address: %v is not subscribed", address)\<close> of the
    first snapshot.
\<close>

datatype error =
    PostError string
  | DecodeError string
  | JSONRPCError json_value
  | ParseDetailsError string
  | SyntaxError string
  | RangeError string
  | NotSubscribedError string

text \<open>
  A run-time panic of Go is a result of its own: \<^verbatim>\<open>s[2:]\<close> on a string shorter than two
  bytes panics with "slice bounds out of range [2:len]".
\<close>

datatype panic = SliceBoundsOutOfRange nat nat

datatype 'a result = Panics panic | Returns 'a

text \<open>What the code writes to standard output with \<^verbatim>\<open>fmt.Printf\<close>, one constructor per format.\<close>

datatype printed =
    PrintError error
  | PrintNeedAddress
  | PrintNotSubscribed string
  | PrintBlockNumberZero
  | PrintDecodeFailed string

section \<open>MemoryStorage\<close>

record MemoryStorage =
  subscribers :: "string \<rightharpoonup> bool"

definition NewMemoryStorage :: MemoryStorage where
  "NewMemoryStorage = \<lparr>subscribers = Map.empty\<rparr>"

definition GetSubscribers :: "MemoryStorage \<Rightarrow> (string \<rightharpoonup> bool) \<times> error option" where
  "GetSubscribers memory = (subscribers memory, None)"

definition SetSubscriber :: "string \<Rightarrow> MemoryStorage \<Rightarrow> error option \<times> MemoryStorage" where
  "SetSubscriber address memory =
     (None, memory\<lparr>subscribers := (subscribers memory)(address \<mapsto> True)\<rparr>)"

definition IsSubscriber :: "MemoryStorage \<Rightarrow> string \<Rightarrow> bool" where
  "IsSubscriber memory address =
     (case subscribers memory address of None \<Rightarrow> False | Some v \<Rightarrow> v)"

text \<open>Go's \<^verbatim>\<open>m[k]\<close> on a \<^verbatim>\<open>map[string]bool\<close>: the zero value \<^verbatim>\<open>false\<close> for a missing key.\<close>

definition map_index :: "(string \<rightharpoonup> bool) \<Rightarrow> string \<Rightarrow> bool" where
  "map_index m k = (case m k of None \<Rightarrow> False | Some v \<Rightarrow> v)"

section \<open>The parser, its effects and its environment\<close>

text \<open>
  In \<^verbatim>\<open>main.go\<close> the field \<open>store\<close> has the interface type \<^verbatim>\<open>Store\<close>; \<^verbatim>\<open>MemoryStorage\<close> is
  its only implementation. The first snapshot names the field \<^verbatim>\<open>memoryDB\<close>; the second
  keeps the map itself in the parser (\<^verbatim>\<open>parser.Subscribers\<close>), which is
  \<open>subscribers (store p)\<close> here.
\<close>

record EthereumParser =
  Endpoint :: string
  store :: MemoryStorage

text \<open>
  The state an operation runs in and returns: the parser object it may mutate, what has
  been printed, and the bodies handed to \<^verbatim>\<open>http.Post\<close> so far (the network calls issued).
\<close>

record world =
  parser :: EthereumParser
  stdout :: "printed list"
  posted :: "string list"

text \<open>
  What is outside the repository is a parameter of the model: the node behind
  \<^verbatim>\<open>http.Post\<close> (\<open>Post url contentType body\<close> gives the response body or the transport
  error) and the functions of \<^verbatim>\<open>encoding/json\<close> the code calls: \<open>Decode\<close> for
  \<^verbatim>\<open>json.NewDecoder(resp.Body).Decode(&response)\<close>, \<open>Unmarshal_string\<close> and
  \<open>Unmarshal_Block\<close> for \<^verbatim>\<open>json.Unmarshal(response.Result, &result)\<close> when \<^verbatim>\<open>result\<close> holds a
  \<^verbatim>\<open>*string\<close> and a \<^verbatim>\<open>*Block\<close> (the value the zero-initialised target holds afterwards, or the
  error), and \<open>Marshal\<close> for \<^verbatim>\<open>json.Marshal(param)\<close>, whose error \<^verbatim>\<open>toJSON\<close> drops. A
  library error is its message. An operation posts at most two requests, and their
  bodies differ in the method, so a node that is a function of the request answers
  them independently.
\<close>

record env =
  Post :: "string \<Rightarrow> string \<Rightarrow> string \<Rightarrow> string + string"
  Decode :: "string \<Rightarrow> string + RPCResponse"
  Unmarshal_string :: "string \<Rightarrow> string + string"
  Unmarshal_Block :: "string \<Rightarrow> string + Block"
  Marshal :: "param \<Rightarrow> string"

definition NewEthereumParser :: "string \<Rightarrow> MemoryStorage \<Rightarrow> EthereumParser" where
  "NewEthereumParser endpoint st = \<lparr>Endpoint = endpoint, store = st\<rparr>"

definition Printf :: "printed \<Rightarrow> world \<Rightarrow> world" where
  "Printf p w = w\<lparr>stdout := stdout w @ [p]\<rparr>"

section \<open>strconv.ParseUint and ParseHexUint64\<close>

text \<open>
  \<^verbatim>\<open>strconv.ParseUint(s, 16, 64)\<close> is Go's standard library, not a file of the repository.
  It is modelled after the library's algorithm at base 16 and bit size 64, the only way
  the repository calls it: the empty string is a syntax error; each byte is a digit
  \<^verbatim>\<open>0-9\<close>, or a letter whose lower case \<^verbatim>\<open>c | ('x' - 'X')\<close> is in \<^verbatim>\<open>a-z\<close> with value
  \<^verbatim>\<open>lower(c) - 'a' + 10\<close>, anything else or a value of 16 or more being a syntax error (the
  underscore is accepted at base 0 only); the accumulator overflows when it has reached
  \<^verbatim>\<open>cutoff = maxUint64/16 + 1\<close> before a multiplication, or when the addition wraps or
  exceeds \<^verbatim>\<open>maxVal = 1<<64 - 1\<close>, both a range error.
\<close>

definition lower :: "nat \<Rightarrow> nat" where
  "lower c = c OR 32"

definition digit :: "char \<Rightarrow> nat option" where
  "digit ch =
     (let c = of_char ch :: nat in
      if 48 \<le> c \<and> c \<le> 57 then Some (c - 48)
      else if 97 \<le> lower c \<and> lower c \<le> 122 then Some (lower c - 97 + 10)
      else None)"

definition cutoff :: uint64 where
  "cutoff = (- 1) div 16 + 1"

definition maxVal :: uint64 where
  "maxVal = push_bit 64 1 - 1"

fun ParseUint_loop :: "string \<Rightarrow> uint64 \<Rightarrow> string \<Rightarrow> error + uint64" where
  "ParseUint_loop s0 n [] = Inr n"
| "ParseUint_loop s0 n (c # cs) =
     (case digit c of
        None \<Rightarrow> Inl (SyntaxError s0)
      | Some d \<Rightarrow>
          if d \<ge> 16 then Inl (SyntaxError s0)
          else if n \<ge> cutoff then Inl (RangeError s0)
          else
            let n16 = n * 16; n1 = n16 + of_nat d in
            if n1 < n16 \<or> n1 > maxVal then Inl (RangeError s0)
            else ParseUint_loop s0 n1 cs)"

definition ParseUint :: "string \<Rightarrow> error + uint64" where
  "ParseUint s = (if s = [] then Inl (SyntaxError s) else ParseUint_loop s 0 s)"

text \<open>\<^verbatim>\<open>return strconv.ParseUint(hexStr[2:], 16, 64)\<close>\<close>

definition ParseHexUint64 :: "string \<Rightarrow> (error + uint64) result" where
  "ParseHexUint64 hexStr =
     (if length hexStr < 2 then Panics (SliceBoundsOutOfRange 2 (length hexStr))
      else Returns (ParseUint (drop 2 hexStr)))"

text \<open>
  The words of the specification, to compare with: a hex digit, the value of a hex
  digit (read from a table, not from the code), and the base-16 value of a string of hex
  digits.
\<close>

definition is_hex_digit :: "char \<Rightarrow> bool" where
  "is_hex_digit c = (c \<in> set ''0123456789abcdefABCDEF'')"

definition hex_digit_value :: "char \<Rightarrow> nat" where
  "hex_digit_value c =
     (case map_of (zip ''0123456789abcdef'' [0..<16] @ zip ''ABCDEF'' [10..<16]) c of
        None \<Rightarrow> 0
      | Some v \<Rightarrow> v)"

definition hex_value :: "string \<Rightarrow> nat" where
  "hex_value cs = foldl (\<lambda>a c. a * 16 + hex_digit_value c) 0 cs"

section \<open>Building a request\<close>

text \<open>\<^verbatim>\<open>fmt.Sprintf("0x%x", blockNumber)\<close>: lower-case hex without leading zeros.\<close>

definition hexchar :: "nat \<Rightarrow> char" where
  "hexchar d = ''0123456789abcdef'' ! d"

function fmt_x :: "nat \<Rightarrow> string" where
  "fmt_x n = (if n < 16 then [hexchar n] else fmt_x (n div 16) @ [hexchar (n mod 16)])"
  by pat_completeness auto
termination
  by (relation "measure id") auto

declare fmt_x.simps [simp del]

definition Sprintf_0x :: "uint64 \<Rightarrow> string" where
  "Sprintf_0x blockNumber = ''0x'' @ fmt_x (unat blockNumber)"

fun ParseToAnySlice_range :: "param list \<Rightarrow> param list \<Rightarrow> param list" where
  "ParseToAnySlice_range [] allParams = allParams"
| "ParseToAnySlice_range (p # ps) allParams = ParseToAnySlice_range ps (allParams @ [p])"

definition ParseToAnySlice :: "param list \<Rightarrow> param list" where
  "ParseToAnySlice params = ParseToAnySlice_range params []"

text \<open>
  The loop of \<^verbatim>\<open>toJSON\<close>: \<^verbatim>\<open>i < len(params)-1\<close> holds exactly when elements remain after
  the current one.
\<close>

fun toJSON_range :: "env \<Rightarrow> param list \<Rightarrow> string \<Rightarrow> string" where
  "toJSON_range e [] builder = builder"
| "toJSON_range e (p # ps) builder =
     toJSON_range e ps (builder @ Marshal e p @ (if ps \<noteq> [] then '','' else ''''))"

definition toJSON :: "env \<Rightarrow> param list \<Rightarrow> string" where
  "toJSON e params =
     (if length params = 0 then ''[]'' else toJSON_range e params ''['' @ '']'')"

text \<open>
  The format of \<^verbatim>\<open>requestBody\<close>: a raw string literal of six lines, indented with tabs,
  with \<^verbatim>\<open>%s\<close> for the method and for the parameters.
\<close>

definition quoted :: "string \<Rightarrow> string" where
  "quoted s = CHR 0x22 # s @ [CHR 0x22]"

definition Sprintf_requestBody :: "string \<Rightarrow> string \<Rightarrow> string" where
  "Sprintf_requestBody method params =
     ''{'' @ [CHR 0x0A, CHR 0x09, CHR 0x09] @
     quoted ''jsonrpc'' @ '': '' @ quoted ''2.0'' @ '','' @ [CHR 0x0A, CHR 0x09, CHR 0x09] @
     quoted ''method'' @ '': '' @ quoted method @ '','' @ [CHR 0x0A, CHR 0x09, CHR 0x09] @
     quoted ''params'' @ '': '' @ params @ '','' @ [CHR 0x0A, CHR 0x09, CHR 0x09] @
     quoted ''id'' @ '': 1'' @ [CHR 0x0A, CHR 0x09] @ ''}''"

definition requestBody :: "env \<Rightarrow> string \<Rightarrow> param list \<Rightarrow> string" where
  "requestBody e method params = Sprintf_requestBody method (toJSON e params)"

section \<open>callRPCMethod\<close>

text \<open>
  \<open>unmarshal\<close> is the decoder for the type of the pointer passed as \<^verbatim>\<open>result\<close>. The
  request is recorded in \<open>posted\<close> when \<^verbatim>\<open>http.Post\<close> is called.
\<close>

definition callRPCMethod ::
  "env \<Rightarrow> string \<Rightarrow> param list \<Rightarrow> (string \<Rightarrow> string + 'a) \<Rightarrow> world \<Rightarrow> (error + 'a) \<times> world" where
  "callRPCMethod e method params unmarshal w =
     (let body = requestBody e method params;
          w1 = w\<lparr>posted := posted w @ [body]\<rparr>
      in case Post e (Endpoint (parser w)) ''application/json'' body of
           Inl err \<Rightarrow> (Inl (PostError err), w1)
         | Inr resp \<Rightarrow>
             (case Decode e resp of
                Inl err \<Rightarrow> (Inl (DecodeError err), Printf (PrintDecodeFailed err) w1)
              | Inr response \<Rightarrow>
                  (case Error response of
                     Some payload \<Rightarrow> (Inl (JSONRPCError payload), w1)
                   | None \<Rightarrow>
                       (case unmarshal (Result response) of
                          Inl err \<Rightarrow> (Inl (ParseDetailsError err), w1)
                        | Inr v \<Rightarrow> (Inr v, w1)))))"

section \<open>The operations of main.go\<close>

definition GetCurrentBlock :: "env \<Rightarrow> world \<Rightarrow> uint64 result \<times> world" where
  "GetCurrentBlock e w =
     (case callRPCMethod e ''eth_blockNumber'' [] (Unmarshal_string e) w of
        (Inl err, w1) \<Rightarrow> (Returns 0, Printf (PrintError err) w1)
      | (Inr blockNumberHex, w1) \<Rightarrow>
          (case ParseHexUint64 blockNumberHex of
             Panics p \<Rightarrow> (Panics p, w1)
           | Returns (Inl err) \<Rightarrow> (Returns 0, Printf (PrintError err) w1)
           | Returns (Inr blockNumber) \<Rightarrow> (Returns blockNumber, w1)))"

text \<open>The loop over \<^verbatim>\<open>block.Transactions\<close>, appending to \<^verbatim>\<open>transactions\<close>.\<close>

fun GetTransactions_range ::
  "string \<Rightarrow> Transaction list \<Rightarrow> Transaction list \<Rightarrow> Transaction list" where
  "GetTransactions_range address [] transactions = transactions"
| "GetTransactions_range address (t # ts) transactions =
     GetTransactions_range address ts
       (if From t = address \<or> To t = address then transactions @ [t] else transactions)"

definition GetTransactions :: "env \<Rightarrow> string \<Rightarrow> world \<Rightarrow> Transaction list result \<times> world" where
  "GetTransactions e address w =
     (if address = [] then (Returns [], Printf PrintNeedAddress w)
      else if \<not> IsSubscriber (store (parser w)) address
      then (Returns [], Printf (PrintNotSubscribed address) w)
      else
        case GetCurrentBlock e w of
          (Panics p, w1) \<Rightarrow> (Panics p, w1)
        | (Returns blockNumber, w1) \<Rightarrow>
            if blockNumber = 0 then (Returns [], Printf PrintBlockNumberZero w1)
            else
              (case callRPCMethod e ''eth_getBlockByNumber''
                      (ParseToAnySlice [ParamString (Sprintf_0x blockNumber), ParamBool True])
                      (Unmarshal_Block e) w1 of
                 (Inl err, w2) \<Rightarrow> (Returns [], Printf (PrintError err) w2)
               | (Inr block, w2) \<Rightarrow>
                   (Returns (GetTransactions_range address (Transactions block) []), w2)))"

definition SubscribeAddress :: "string \<Rightarrow> world \<Rightarrow> bool \<times> world" where
  "SubscribeAddress address w =
     (if address = [] then (False, Printf PrintNeedAddress w)
      else
        case SetSubscriber address (store (parser w)) of
          (Some err, st) \<Rightarrow> (False, w\<lparr>parser := (parser w)\<lparr>store := st\<rparr>\<rparr>)
        | (None, st) \<Rightarrow> (True, w\<lparr>parser := (parser w)\<lparr>store := st\<rparr>\<rparr>))"

section \<open>The operations of the snapshots in part_001\<close>

text \<open>\<^verbatim>\<open>GetCurrentBlock() (uint64, error)\<close>, the same text in both snapshots.\<close>

definition GetCurrentBlock_part001 :: "env \<Rightarrow> world \<Rightarrow> (error + uint64) result \<times> world" where
  "GetCurrentBlock_part001 e w =
     (case callRPCMethod e ''eth_blockNumber'' [] (Unmarshal_string e) w of
        (Inl err, w1) \<Rightarrow> (Returns (Inl err), w1)
      | (Inr blockNumberHex, w1) \<Rightarrow>
          (case ParseHexUint64 blockNumberHex of
             Panics p \<Rightarrow> (Panics p, w1)
           | Returns (Inl err) \<Rightarrow> (Returns (Inl err), w1)
           | Returns (Inr blockNumber) \<Rightarrow> (Returns (Inr blockNumber), w1)))"

text \<open>
  Second snapshot: no check in the operation (its command loop checks before calling).
  On an error the Go code returns \<^verbatim>\<open>nil, err\<close>.
\<close>

definition GetTransactions_part001b ::
  "env \<Rightarrow> string \<Rightarrow> world \<Rightarrow> (error + Transaction list) result \<times> world" where
  "GetTransactions_part001b e address w =
     (case GetCurrentBlock_part001 e w of
        (Panics p, w1) \<Rightarrow> (Panics p, w1)
      | (Returns (Inl err), w1) \<Rightarrow> (Returns (Inl err), w1)
      | (Returns (Inr blockNumber), w1) \<Rightarrow>
          (case callRPCMethod e ''eth_getBlockByNumber''
                  (ParseToAnySlice [ParamString (Sprintf_0x blockNumber), ParamBool True])
                  (Unmarshal_Block e) w1 of
             (Inl err, w2) \<Rightarrow> (Returns (Inl err), w2)
           | (Inr block, w2) \<Rightarrow>
               (Returns (Inr (GetTransactions_range address (Transactions block) [])), w2)))"

text \<open>
  First snapshot: the subscription check, followed by the lines of the second
  snapshot's function, word for word.
\<close>

definition GetTransactions_part001a ::
  "env \<Rightarrow> string \<Rightarrow> world \<Rightarrow> (error + Transaction list) result \<times> world" where
  "GetTransactions_part001a e address w =
     (if \<not> IsSubscriber (store (parser w)) address
      then (Returns (Inl (NotSubscribedError address)), w)
      else GetTransactions_part001b e address w)"

definition SubscribeAddress_part001a :: "string \<Rightarrow> world \<Rightarrow> bool \<times> world" where
  "SubscribeAddress_part001a address w =
     (case SetSubscriber address (store (parser w)) of
        (Some err, st) \<Rightarrow> (False, w\<lparr>parser := (parser w)\<lparr>store := st\<rparr>\<rparr>)
      | (None, st) \<Rightarrow> (True, w\<lparr>parser := (parser w)\<lparr>store := st\<rparr>\<rparr>))"

text \<open>
  Second snapshot: \<^verbatim>\<open>parser.Subscribers[address] = true; return parser.Subscribers[address]\<close>
  and \<^verbatim>\<open>delete(parser.Subscribers, address); return parser.Subscribers[address]\<close>.
\<close>

definition Subscribers :: "world \<Rightarrow> string \<rightharpoonup> bool" where
  "Subscribers w = subscribers (store (parser w))"

definition set_Subscribers :: "(string \<rightharpoonup> bool) \<Rightarrow> world \<Rightarrow> world" where
  "set_Subscribers m w = w\<lparr>parser := (parser w)\<lparr>store := (store (parser w))\<lparr>subscribers := m\<rparr>\<rparr>\<rparr>"

definition SubscribeAddress_part001b :: "string \<Rightarrow> world \<Rightarrow> bool \<times> world" where
  "SubscribeAddress_part001b address w =
     (let w1 = set_Subscribers ((Subscribers w)(address \<mapsto> True)) w
      in (map_index (Subscribers w1) address, w1))"

definition UnsubscribeAddress :: "string \<Rightarrow> world \<Rightarrow> bool \<times> world" where
  "UnsubscribeAddress address w =
     (let w1 = set_Subscribers ((Subscribers w)(address := None)) w
      in (map_index (Subscribers w1) address, w1))"

section \<open>Mocked nodes and start states\<close>

text \<open>
  A node that answers every request with a well-formed envelope without error, whose
  result decodes to \<open>height\<close> as a string and to \<open>block\<close> as a block.
\<close>

definition mock_node :: "string \<Rightarrow> Block \<Rightarrow> env" where
  "mock_node height block =
     \<lparr>Post = (\<lambda>url contentType body. Inr ''response''),
      Decode = (\<lambda>resp. Inr \<lparr>Result = ''result'', Error = None, ID = 1\<rparr>),
      Unmarshal_string = (\<lambda>raw. Inr height),
      Unmarshal_Block = (\<lambda>raw. Inr block),
      Marshal = (\<lambda>p. case p of ParamString s \<Rightarrow> quoted s
                       | ParamBool b \<Rightarrow> if b then ''true'' else ''false'')\<rparr>"

text \<open>A node that cannot be reached: \<^verbatim>\<open>http.Post\<close> returns an error.\<close>

definition mock_down :: env where
  "mock_down = (mock_node [] \<lparr>Hash = [], Transactions = []\<rparr>)
     \<lparr>Post := (\<lambda>url contentType body. Inl ''connection refused'')\<rparr>"

text \<open>
  A node whose envelope carries a non-null error, and whose result decodes into
  neither target type.
\<close>

definition mock_rpc_error :: "json_value \<Rightarrow> env" where
  "mock_rpc_error payload = (mock_node [] \<lparr>Hash = [], Transactions = []\<rparr>)
     \<lparr>Decode := (\<lambda>resp. Inr \<lparr>Result = ''result'', Error = Some payload, ID = 1\<rparr>),
      Unmarshal_string := (\<lambda>raw. Inl ''cannot unmarshal''),
      Unmarshal_Block := (\<lambda>raw. Inl ''cannot unmarshal'')\<rparr>"

text \<open>A node whose response body is not a JSON-RPC envelope.\<close>

definition mock_garbled :: env where
  "mock_garbled = (mock_node [] \<lparr>Hash = [], Transactions = []\<rparr>)
     \<lparr>Decode := (\<lambda>resp. Inl ''invalid character'')\<rparr>"

text \<open>A node whose envelope has no error and a result that decodes into neither target type.\<close>

definition mock_bad_result :: env where
  "mock_bad_result = (mock_node [] \<lparr>Hash = [], Transactions = []\<rparr>)
     \<lparr>Unmarshal_string := (\<lambda>raw. Inl ''cannot unmarshal''),
      Unmarshal_Block := (\<lambda>raw. Inl ''cannot unmarshal'')\<rparr>"

definition tx :: "string \<Rightarrow> string \<Rightarrow> string \<Rightarrow> Transaction" where
  "tx h f t = \<lparr>Transaction.Hash = h, BlockNumber = ''0x5'', From = f, To = t, Value = ''0x1''\<rparr>"

definition mock_block :: Block where
  "mock_block = \<lparr>Hash = ''0xb5'',
     Transactions = [tx ''0x01'' ''X'' ''Y'', tx ''0x02'' ''Z'' ''X'', tx ''0x03'' ''W'' ''V'']\<rparr>"

text \<open>The state \<^verbatim>\<open>processCommands\<close> starts from, and the same with \<open>X\<close> subscribed.\<close>

definition world0 :: world where
  "world0 = \<lparr>parser = NewEthereumParser ''https://cloudflare-eth.com'' NewMemoryStorage,
     stdout = [], posted = []\<rparr>"

definition world_X :: world where
  "world_X = snd (SubscribeAddress ''X'' world0)"

section \<open>Lemmas on strconv.ParseUint\<close>

lemma cutoff_eq: "cutoff = 2 ^ 60"
  by (simp add: cutoff_def)

lemma maxVal_eq: "maxVal = - 1"
  by (simp add: maxVal_def)

lemma lower_eq: "lower c = (if odd (c div 32) then c else c + 32)"
  using set_bit_eq [of 5 c] by (simp add: lower_def set_bit_def bit_iff_odd)

lemma upt_16: "[0..<16] = [0, 1, 2, 3, 4, 5, 6, 7, 8, 9, 10, 11, 12, 13, 14, 15]"
  and upt_10_16: "[10..<16] = [10, 11, 12, 13, 14, 15]"
  by (simp_all add: upt_rec)

lemma digit_hex: "is_hex_digit c \<Longrightarrow> digit c = Some (hex_digit_value c) \<and> hex_digit_value c < 16"
  by (auto simp: is_hex_digit_def digit_def lower_def hex_digit_value_def upt_16 upt_10_16)

lemma char_of_hex_codes:
  "char_of (48::nat) = CHR ''0''" "char_of (49::nat) = CHR ''1''" "char_of (50::nat) = CHR ''2''"
  "char_of (51::nat) = CHR ''3''" "char_of (52::nat) = CHR ''4''" "char_of (53::nat) = CHR ''5''"
  "char_of (54::nat) = CHR ''6''" "char_of (55::nat) = CHR ''7''" "char_of (56::nat) = CHR ''8''"
  "char_of (57::nat) = CHR ''9''"
  "char_of (97::nat) = CHR ''a''" "char_of (98::nat) = CHR ''b''" "char_of (99::nat) = CHR ''c''"
  "char_of (100::nat) = CHR ''d''" "char_of (101::nat) = CHR ''e''" "char_of (102::nat) = CHR ''f''"
  "char_of (65::nat) = CHR ''A''" "char_of (66::nat) = CHR ''B''" "char_of (67::nat) = CHR ''C''"
  "char_of (68::nat) = CHR ''D''" "char_of (69::nat) = CHR ''E''" "char_of (70::nat) = CHR ''F''"
  by (simp_all add: char_of_def bit_iff_odd)

lemma digit_lt16_hex:
  assumes "digit c = Some d" and "d < 16"
  shows "is_hex_digit c"
proof -
  define n where "n = (of_char c :: nat)"
  have c: "c = char_of n"
    by (simp add: n_def)
  from assms have "(48 \<le> n \<and> n \<le> 57) \<or> (97 \<le> n \<and> n \<le> 102) \<or> (65 \<le> n \<and> n \<le> 70)"
    by (auto simp: digit_def lower_eq Let_def n_def split: if_splits)
  then have "n \<in> {48, 49, 50, 51, 52, 53, 54, 55, 56, 57, 97, 98, 99, 100, 101, 102,
      65, 66, 67, 68, 69, 70}"
    by (simp; arith)
  then show ?thesis
    unfolding c is_hex_digit_def
    by (elim insertE emptyE; simp add: char_of_hex_codes)
qed

lemma digit_None_or_big:
  "\<not> is_hex_digit c \<Longrightarrow> digit c = None \<or> (\<exists>d. digit c = Some d \<and> 16 \<le> d)"
  by (cases "digit c") (auto dest: digit_lt16_hex simp: not_less [symmetric])

lemma foldl_hex_ge: "a \<le> foldl (\<lambda>a c. a * 16 + hex_digit_value c) a cs"
proof (induction cs arbitrary: a)
  case Nil
  show ?case by simp
next
  case (Cons c cs)
  have "a \<le> a * 16 + hex_digit_value c" by simp
  also have "\<dots> \<le> foldl (\<lambda>a c. a * 16 + hex_digit_value c) (a * 16 + hex_digit_value c) cs"
    by (rule Cons.IH)
  finally show ?case by simp
qed

text \<open>Below the cutoff neither the multiplication nor the addition wraps.\<close>

lemma step_no_wrap:
  fixes n :: uint64
  assumes "n < 2 ^ 60" and "d < 16"
  shows "unat (n * 16 + of_nat d) = unat n * 16 + d"
    and "\<not> (n * 16 + of_nat d < n * 16)"
proof -
  from assms(1) have n: "unat n < 2 ^ 60"
    by (simp add: word_less_nat_alt)
  have m: "unat (n * 16) = unat n * 16"
    using n by (simp add: unat_word_ariths)
  have dd: "unat (of_nat d :: uint64) = d"
    using assms(2) by (simp add: unat_of_nat)
  show s: "unat (n * 16 + of_nat d) = unat n * 16 + d"
    using n assms(2) m dd by (simp add: unat_word_ariths)
  show "\<not> (n * 16 + of_nat d < n * 16)"
    using s m by (simp add: word_less_nat_alt)
qed

lemma ParseUint_loop_hex:
  assumes "\<forall>c \<in> set cs. is_hex_digit c"
  shows "ParseUint_loop s0 n cs =
     (if foldl (\<lambda>a c. a * 16 + hex_digit_value c) (unat n) cs < 2 ^ 64
      then Inr (of_nat (foldl (\<lambda>a c. a * 16 + hex_digit_value c) (unat n) cs))
      else Inl (RangeError s0))"
  using assms
proof (induction cs arbitrary: n)
  case Nil
  then show ?case using unsigned_less [of n] by simp
next
  case (Cons c cs)
  define d where "d = hex_digit_value c"
  from Cons.prems have d: "digit c = Some d" "d < 16"
    using digit_hex [of c] by (simp_all add: d_def)
  show ?case
  proof (cases "n < 2 ^ 60")
    case True
    from step_no_wrap [OF True d(2)]
    have u: "unat (n * 16 + of_nat d) = unat n * 16 + d"
      and nw: "\<not> (n * 16 + of_nat d < n * 16)" by simp_all
    have "ParseUint_loop s0 n (c # cs) = ParseUint_loop s0 (n * 16 + of_nat d) cs"
      using d True nw by (simp add: cutoff_eq maxVal_eq Let_def not_le [symmetric])
    also have "\<dots> = (if foldl (\<lambda>a c. a * 16 + hex_digit_value c) (unat n * 16 + d) cs < 2 ^ 64
      then Inr (of_nat (foldl (\<lambda>a c. a * 16 + hex_digit_value c) (unat n * 16 + d) cs))
      else Inl (RangeError s0))"
      using Cons.IH [of "n * 16 + of_nat d"] Cons.prems by (simp add: u)
    finally show ?thesis by (simp add: d_def)
  next
    case False
    then have ge: "2 ^ 60 \<le> unat n"
      by (simp add: word_less_nat_alt not_less)
    have "unat n * 16 + d \<le> foldl (\<lambda>a c. a * 16 + hex_digit_value c) (unat n * 16 + d) cs"
      by (rule foldl_hex_ge)
    with ge have "\<not> foldl (\<lambda>a c. a * 16 + hex_digit_value c) (unat n) (c # cs) < 2 ^ 64"
      by (simp add: d_def)
    moreover have "ParseUint_loop s0 n (c # cs) = Inl (RangeError s0)"
      using d False by (simp add: cutoff_eq not_less)
    ultimately show ?thesis by simp
  qed
qed

lemma ParseUint_loop_nonhex:
  assumes "\<exists>c \<in> set cs. \<not> is_hex_digit c"
  shows "ParseUint_loop s0 n cs = Inl (SyntaxError s0) \<or> ParseUint_loop s0 n cs = Inl (RangeError s0)"
  using assms
proof (induction cs arbitrary: n)
  case Nil
  then show ?case by simp
next
  case (Cons c cs)
  show ?case
  proof (cases "is_hex_digit c")
    case True
    with Cons.prems have "\<exists>c \<in> set cs. \<not> is_hex_digit c" by auto
    from Cons.IH [OF this] show ?thesis
      using digit_hex [OF True] by (auto simp: Let_def)
  next
    case False
    from digit_None_or_big [OF this] show ?thesis by auto
  qed
qed

lemma ParseHexUint64_hex_digits:
  assumes "2 \<le> length s" and "drop 2 s \<noteq> []" and "\<forall>c \<in> set (drop 2 s). is_hex_digit c"
  shows "ParseHexUint64 s =
     Returns (if hex_value (drop 2 s) < 2 ^ 64 then Inr (of_nat (hex_value (drop 2 s)))
              else Inl (RangeError (drop 2 s)))"
proof -
  have "ParseUint (drop 2 s) =
      (if hex_value (drop 2 s) < 2 ^ 64 then Inr (of_nat (hex_value (drop 2 s)))
       else Inl (RangeError (drop 2 s)))"
    using assms(2) ParseUint_loop_hex [OF assms(3), of "drop 2 s" 0]
    by (simp add: ParseUint_def hex_value_def)
  then show ?thesis
    using assms(1) by (simp add: ParseHexUint64_def)
qed

lemma ParseHexUint64_non_hex:
  assumes "2 \<le> length s" and "\<exists>c \<in> set (drop 2 s). \<not> is_hex_digit c"
  shows "ParseHexUint64 s = Returns (Inl (SyntaxError (drop 2 s)))
    \<or> ParseHexUint64 s = Returns (Inl (RangeError (drop 2 s)))"
proof -
  from assms(2) have "drop 2 s \<noteq> []" by auto
  with ParseUint_loop_nonhex [OF assms(2), of "drop 2 s" 0] show ?thesis
    using assms(1) by (auto simp: ParseHexUint64_def ParseUint_def)
qed

section \<open>Lemmas on the operations\<close>

lemma GetTransactions_range_filter:
  "GetTransactions_range address ts acc =
     acc @ filter (\<lambda>t. From t = address \<or> To t = address) ts"
  by (induction ts arbitrary: acc) simp_all

lemma ParseToAnySlice_range_append: "ParseToAnySlice_range ps acc = acc @ ps"
  by (induction ps arbitrary: acc) simp_all

lemma ParseToAnySlice_id: "ParseToAnySlice ps = ps"
  by (simp add: ParseToAnySlice_def ParseToAnySlice_range_append)

lemma callRPCMethod_world:
  "parser (snd (callRPCMethod e method params u w)) = parser w"
  "posted (snd (callRPCMethod e method params u w)) = posted w @ [requestBody e method params]"
  by (simp_all add: callRPCMethod_def Let_def Printf_def split: sum.splits option.splits)

lemma Printf_world [simp]:
  "parser (Printf p w) = parser w" "posted (Printf p w) = posted w"
  "stdout (Printf p w) = stdout w @ [p]"
  by (simp_all add: Printf_def)

lemma GetCurrentBlock_world:
  "parser (snd (GetCurrentBlock e w)) = parser w"
  "posted (snd (GetCurrentBlock e w)) = posted w @ [requestBody e ''eth_blockNumber'' []]"
proof -
  obtain r w1 where c: "callRPCMethod e ''eth_blockNumber'' [] (Unmarshal_string e) w = (r, w1)"
    by (cases "callRPCMethod e ''eth_blockNumber'' [] (Unmarshal_string e) w")
  have w1: "parser w1 = parser w" "posted w1 = posted w @ [requestBody e ''eth_blockNumber'' []]"
    using callRPCMethod_world [of e "''eth_blockNumber''" "[]" "Unmarshal_string e" w]
    by (simp_all add: c)
  show "parser (snd (GetCurrentBlock e w)) = parser w"
    by (simp add: GetCurrentBlock_def c w1 split: sum.splits result.splits)
  show "posted (snd (GetCurrentBlock e w)) = posted w @ [requestBody e ''eth_blockNumber'' []]"
    by (simp add: GetCurrentBlock_def c w1 split: sum.splits result.splits)
qed

lemma GetCurrentBlock_part001_world:
  "parser (snd (GetCurrentBlock_part001 e w)) = parser w"
  "posted (snd (GetCurrentBlock_part001 e w)) = posted w @ [requestBody e ''eth_blockNumber'' []]"
proof -
  obtain r w1 where c: "callRPCMethod e ''eth_blockNumber'' [] (Unmarshal_string e) w = (r, w1)"
    by (cases "callRPCMethod e ''eth_blockNumber'' [] (Unmarshal_string e) w")
  have w1: "parser w1 = parser w" "posted w1 = posted w @ [requestBody e ''eth_blockNumber'' []]"
    using callRPCMethod_world [of e "''eth_blockNumber''" "[]" "Unmarshal_string e" w]
    by (simp_all add: c)
  show "parser (snd (GetCurrentBlock_part001 e w)) = parser w"
    by (simp add: GetCurrentBlock_part001_def c w1 split: sum.splits result.splits)
  show "posted (snd (GetCurrentBlock_part001 e w)) = posted w @ [requestBody e ''eth_blockNumber'' []]"
    by (simp add: GetCurrentBlock_part001_def c w1 split: sum.splits result.splits)
qed

lemma GetTransactions_parser: "parser (snd (GetTransactions e address w)) = parser w"
proof -
  obtain r w1 where g: "GetCurrentBlock e w = (r, w1)"
    by (cases "GetCurrentBlock e w")
  have w1: "parser w1 = parser w"
    using GetCurrentBlock_world(1) [of e w] by (simp add: g)
  show ?thesis
  proof (cases r)
    case (Panics p)
    then show ?thesis by (simp add: GetTransactions_def g w1)
  next
    case (Returns n)
    obtain r2 w2 where c: "callRPCMethod e ''eth_getBlockByNumber''
        (ParseToAnySlice [ParamString (Sprintf_0x n), ParamBool True]) (Unmarshal_Block e) w1 = (r2, w2)"
      by (cases "callRPCMethod e ''eth_getBlockByNumber''
        (ParseToAnySlice [ParamString (Sprintf_0x n), ParamBool True]) (Unmarshal_Block e) w1")
    have w2: "parser w2 = parser w"
      using callRPCMethod_world(1) [of e "''eth_getBlockByNumber''"
          "ParseToAnySlice [ParamString (Sprintf_0x n), ParamBool True]" "Unmarshal_Block e" w1]
      by (simp add: c w1)
    show ?thesis
      by (simp add: GetTransactions_def g Returns c w1 w2 split: sum.splits)
  qed
qed

lemma GetTransactions_part001b_parser:
  "parser (snd (GetTransactions_part001b e address w)) = parser w"
proof -
  obtain r w1 where g: "GetCurrentBlock_part001 e w = (r, w1)"
    by (cases "GetCurrentBlock_part001 e w")
  have w1: "parser w1 = parser w"
    using GetCurrentBlock_part001_world(1) [of e w] by (simp add: g)
  show ?thesis
  proof (cases r)
    case (Panics p)
    then show ?thesis by (simp add: GetTransactions_part001b_def g w1)
  next
    case (Returns x)
    show ?thesis
    proof (cases x)
      case (Inl err)
      then show ?thesis by (simp add: GetTransactions_part001b_def g Returns w1)
    next
      case (Inr n)
      obtain r2 w2 where c: "callRPCMethod e ''eth_getBlockByNumber''
          (ParseToAnySlice [ParamString (Sprintf_0x n), ParamBool True]) (Unmarshal_Block e) w1 = (r2, w2)"
        by (cases "callRPCMethod e ''eth_getBlockByNumber''
          (ParseToAnySlice [ParamString (Sprintf_0x n), ParamBool True]) (Unmarshal_Block e) w1")
      have w2: "parser w2 = parser w"
        using callRPCMethod_world(1) [of e "''eth_getBlockByNumber''"
            "ParseToAnySlice [ParamString (Sprintf_0x n), ParamBool True]" "Unmarshal_Block e" w1]
        by (simp add: c w1)
      show ?thesis
        by (simp add: GetTransactions_part001b_def g Returns Inr c w2 split: sum.splits)
    qed
  qed
qed

lemma Subscribers_set [simp]:
  "Subscribers (set_Subscribers m w) = m"
  "posted (set_Subscribers m w) = posted w"
  "stdout (set_Subscribers m w) = stdout w"
  "Endpoint (parser (set_Subscribers m w)) = Endpoint (parser w)"
  by (simp_all add: Subscribers_def set_Subscribers_def)

lemma set_Subscribers_same: "set_Subscribers (Subscribers w) w = w"
  by (simp add: Subscribers_def set_Subscribers_def)

lemma GetTransactions_part001b_posted:
  "\<exists>rest. posted (snd (GetTransactions_part001b e address w)) =
     posted w @ requestBody e ''eth_blockNumber'' [] # rest"
proof -
  obtain r w1 where g: "GetCurrentBlock_part001 e w = (r, w1)"
    by (cases "GetCurrentBlock_part001 e w")
  have w1: "posted w1 = posted w @ [requestBody e ''eth_blockNumber'' []]"
    using GetCurrentBlock_part001_world(2) [of e w] by (simp add: g)
  show ?thesis
  proof (cases r)
    case (Panics p)
    then show ?thesis by (simp add: GetTransactions_part001b_def g w1)
  next
    case (Returns x)
    show ?thesis
    proof (cases x)
      case (Inl err)
      then show ?thesis by (simp add: GetTransactions_part001b_def g Returns w1)
    next
      case (Inr n)
      obtain r2 w2 where c: "callRPCMethod e ''eth_getBlockByNumber''
          (ParseToAnySlice [ParamString (Sprintf_0x n), ParamBool True]) (Unmarshal_Block e) w1 = (r2, w2)"
        by (cases "callRPCMethod e ''eth_getBlockByNumber''
          (ParseToAnySlice [ParamString (Sprintf_0x n), ParamBool True]) (Unmarshal_Block e) w1")
      have w2: "posted w2 = posted w1 @ [requestBody e ''eth_getBlockByNumber''
          (ParseToAnySlice [ParamString (Sprintf_0x n), ParamBool True])]"
        using callRPCMethod_world(2) [of e "''eth_getBlockByNumber''"
            "ParseToAnySlice [ParamString (Sprintf_0x n), ParamBool True]" "Unmarshal_Block e" w1]
        by (simp add: c)
      show ?thesis
        by (simp add: GetTransactions_part001b_def g Returns Inr c w2 w1 split: sum.splits)
    qed
  qed
qed

section \<open>Lemmas on the mocked nodes\<close>

lemma world0_Subscribers: "Subscribers world0 = Map.empty"
  by (simp add: Subscribers_def world0_def NewEthereumParser_def NewMemoryStorage_def)

lemma world_X_store: "subscribers (store (parser world_X)) = [''X'' \<mapsto> True]"
  by (simp add: world_X_def SubscribeAddress_def SetSubscriber_def world0_def
      NewEthereumParser_def NewMemoryStorage_def)

lemma world_X_fields:
  "Endpoint (parser world_X) = ''https://cloudflare-eth.com''"
  "stdout world_X = []" "posted world_X = []"
  by (simp_all add: world_X_def SubscribeAddress_def SetSubscriber_def world0_def
      NewEthereumParser_def NewMemoryStorage_def)

lemma mock_down_Post:
  "Post mock_down url ct body = Inl ''connection refused''"
  by (simp add: mock_down_def mock_node_def)

lemma mock_node_blockNumber:
  "callRPCMethod (mock_node height block) ''eth_blockNumber'' []
     (Unmarshal_string (mock_node height block)) w =
   (Inr height, w\<lparr>posted := posted w @ [requestBody (mock_node height block) ''eth_blockNumber'' []]\<rparr>)"
  by (simp add: callRPCMethod_def Let_def mock_node_def)

lemma mock_node_getBlock:
  "callRPCMethod (mock_node height block) ''eth_getBlockByNumber'' params
     (Unmarshal_Block (mock_node height block)) w =
   (Inr block, w\<lparr>posted := posted w @ [requestBody (mock_node height block) ''eth_getBlockByNumber'' params]\<rparr>)"
  by (simp add: callRPCMethod_def Let_def mock_node_def)

lemma ParseHexUint64_0x5: "ParseHexUint64 ''0x5'' = Returns (Inr 5)"
  using ParseHexUint64_hex_digits [of "''0x5''"]
  by (simp add: is_hex_digit_def hex_value_def hex_digit_value_def upt_16 upt_10_16)

lemma ParseHexUint64_0x0: "ParseHexUint64 ''0x0'' = Returns (Inr 0)"
  using ParseHexUint64_hex_digits [of "''0x0''"]
  by (simp add: is_hex_digit_def hex_value_def hex_digit_value_def upt_16 upt_10_16)

lemma ParseHexUint64_0xzz: "ParseHexUint64 ''0xzz'' = Returns (Inl (SyntaxError ''zz''))"
  by (simp add: ParseHexUint64_def ParseUint_def digit_def lower_def)

lemma mock_node_height_5:
  "GetCurrentBlock (mock_node ''0x5'' block) w =
     (Returns 5, w\<lparr>posted := posted w @ [requestBody (mock_node ''0x5'' block) ''eth_blockNumber'' []]\<rparr>)"
  by (simp add: GetCurrentBlock_def mock_node_blockNumber ParseHexUint64_0x5)

lemma mock_node_height_0:
  "GetCurrentBlock (mock_node ''0x0'' block) w =
     (Returns 0, w\<lparr>posted := posted w @ [requestBody (mock_node ''0x0'' block) ''eth_blockNumber'' []]\<rparr>)"
  by (simp add: GetCurrentBlock_def mock_node_blockNumber ParseHexUint64_0x0)

section \<open>Hex parsing\<close>

text \<open>
  Claim C1, as amended. \<^verbatim>\<open>ParseHexUint64\<close> never looks at the first two bytes of its
  input. For every input of at least two bytes the result is decided by the remainder
  after them: an empty remainder is a syntax error; a remainder with a byte that is not
  a hex digit is a syntax or a range error; a non-empty remainder of hex digits gives its base-16 value
  when that is below \<open>2 ^ 64\<close> and a range error otherwise.
\<close>

theorem ParseHexUint64_remainder:
  assumes "2 \<le> length s"
  shows "(drop 2 s = [] \<longrightarrow> ParseHexUint64 s = Returns (Inl (SyntaxError [])))
    \<and> ((\<exists>c \<in> set (drop 2 s). \<not> is_hex_digit c) \<longrightarrow>
         ParseHexUint64 s = Returns (Inl (SyntaxError (drop 2 s))) \<or>
         ParseHexUint64 s = Returns (Inl (RangeError (drop 2 s))))
    \<and> (drop 2 s \<noteq> [] \<and> (\<forall>c \<in> set (drop 2 s). is_hex_digit c) \<longrightarrow>
         ParseHexUint64 s =
           Returns (if hex_value (drop 2 s) < 2 ^ 64 then Inr (of_nat (hex_value (drop 2 s)))
                    else Inl (RangeError (drop 2 s))))"
proof (intro conjI impI)
  assume "drop 2 s = []"
  then show "ParseHexUint64 s = Returns (Inl (SyntaxError []))"
    using assms by (simp add: ParseHexUint64_def ParseUint_def)
next
  assume "\<exists>c \<in> set (drop 2 s). \<not> is_hex_digit c"
  then show "ParseHexUint64 s = Returns (Inl (SyntaxError (drop 2 s))) \<or>
      ParseHexUint64 s = Returns (Inl (RangeError (drop 2 s)))"
    using assms by (rule ParseHexUint64_non_hex [rotated])
next
  assume "drop 2 s \<noteq> [] \<and> (\<forall>c \<in> set (drop 2 s). is_hex_digit c)"
  then show "ParseHexUint64 s =
      Returns (if hex_value (drop 2 s) < 2 ^ 64 then Inr (of_nat (hex_value (drop 2 s)))
               else Inl (RangeError (drop 2 s)))"
    using assms by (simp add: ParseHexUint64_hex_digits)
qed

text \<open>
  The theorem at \<open>0x10\<close> (16), \<open>0x0\<close> (0), at a remainder with the letter \<open>g\<close>, and at
  \<open>2 ^ 64\<close>, a one and sixteen zeros, which does not fit 64 bits.
\<close>

theorem ParseHexUint64_remainder_witness:
  "2 \<le> length ''0x10'' \<and> ParseHexUint64 ''0x10'' = Returns (Inr 16)
   \<and> 2 \<le> length ''0x0'' \<and> ParseHexUint64 ''0x0'' = Returns (Inr 0)
   \<and> 2 \<le> length ''0xg1''
   \<and> (ParseHexUint64 ''0xg1'' = Returns (Inl (SyntaxError ''g1'')) \<or>
        ParseHexUint64 ''0xg1'' = Returns (Inl (RangeError ''g1'')))
   \<and> 2 \<le> length ''0x10000000000000000''
   \<and> ParseHexUint64 ''0x10000000000000000'' = Returns (Inl (RangeError ''10000000000000000''))"
  using ParseHexUint64_remainder [of "''0x10''"] ParseHexUint64_remainder [of "''0x0''"]
    ParseHexUint64_remainder [of "''0xg1''"]
    ParseHexUint64_remainder [of "''0x10000000000000000''"]
  by (simp add: is_hex_digit_def hex_value_def hex_digit_value_def upt_16 upt_10_16)

text \<open>
  Claim C1 as stated fails: \<open>ab10\<close> has no \<open>0x\<close> prefix, and it parses to 16 instead of
  failing.
\<close>

theorem ParseHexUint64_prefix_counterexample:
  "take 2 ''ab10'' \<noteq> ''0x'' \<and> ParseHexUint64 ''ab10'' = Returns (Inr 16)"
  using ParseHexUint64_hex_digits [of "''ab10''"]
  by (simp add: is_hex_digit_def hex_value_def hex_digit_value_def upt_16 upt_10_16)

section \<open>The registry under the query operations\<close>

text \<open>
  Claim C9. \<^verbatim>\<open>GetCurrentBlock\<close> and \<^verbatim>\<open>GetTransactions\<close> return the parser's store as
  they found it, on every path and so on every error path (invalid input, not
  subscribed, transport failure, envelope error, parse failure, and the panic as well),
  in \<^verbatim>\<open>main.go\<close> and in both snapshots.
\<close>

theorem failed_operations_keep_registry:
  "store (parser (snd (GetCurrentBlock e w))) = store (parser w)
   \<and> store (parser (snd (GetTransactions e address w))) = store (parser w)
   \<and> store (parser (snd (GetCurrentBlock_part001 e w))) = store (parser w)
   \<and> store (parser (snd (GetTransactions_part001a e address w))) = store (parser w)
   \<and> store (parser (snd (GetTransactions_part001b e address w))) = store (parser w)"
  by (simp add: GetCurrentBlock_world GetTransactions_parser GetCurrentBlock_part001_world
      GetTransactions_part001b_parser GetTransactions_part001a_def)

theorem failed_operations_keep_registry_witness:
  "store (parser (snd (GetCurrentBlock mock_down world_X))) = store (parser world_X)
   \<and> store (parser (snd (GetTransactions mock_down ''X'' world_X))) = store (parser world_X)
   \<and> store (parser (snd (GetTransactions (mock_rpc_error (JString ''busy'')) ''Q'' world_X)))
       = store (parser world_X)"
  using failed_operations_keep_registry [of mock_down world_X "''X''"]
    failed_operations_keep_registry [of "mock_rpc_error (JString ''busy'')" world_X "''Q''"]
  by simp

section \<open>The JSON-RPC error field\<close>

text \<open>
  Claim C5. When the response body decodes into an envelope whose \<open>Error\<close> field is
  not nil, \<^verbatim>\<open>callRPCMethod\<close> returns the JSON-RPC error made from that payload, whatever
  the decoder of the result would do: the result is never looked at.
\<close>

theorem callRPCMethod_error_field_first:
  assumes "Post e (Endpoint (parser w)) ''application/json'' (requestBody e method params) = Inr resp"
    and "Decode e resp = Inr response"
    and "Error response = Some payload"
  shows "callRPCMethod e method params unmarshal w =
     (Inl (JSONRPCError payload), w\<lparr>posted := posted w @ [requestBody e method params]\<rparr>)"
  using assms by (simp add: callRPCMethod_def Let_def)

theorem callRPCMethod_error_field_first_witness:
  "Post (mock_rpc_error (JString ''method not found'')) (Endpoint (parser world0))
       ''application/json''
       (requestBody (mock_rpc_error (JString ''method not found'')) ''eth_blockNumber'' [])
     = Inr ''response''
   \<and> Decode (mock_rpc_error (JString ''method not found'')) ''response''
     = Inr \<lparr>Result = ''result'', Error = Some (JString ''method not found''), ID = 1\<rparr>
   \<and> Unmarshal_string (mock_rpc_error (JString ''method not found'')) ''result''
     = Inl ''cannot unmarshal''
   \<and> fst (callRPCMethod (mock_rpc_error (JString ''method not found'')) ''eth_blockNumber'' []
        (Unmarshal_string (mock_rpc_error (JString ''method not found''))) world0)
     = Inl (JSONRPCError (JString ''method not found''))"
  using callRPCMethod_error_field_first [of "mock_rpc_error (JString ''method not found'')" world0
      "''eth_blockNumber''" "[]" "''response''"
      "\<lparr>Result = ''result'', Error = Some (JString ''method not found''), ID = 1\<rparr>"
      "JString ''method not found''"
      "Unmarshal_string (mock_rpc_error (JString ''method not found''))"]
  by (simp add: mock_rpc_error_def mock_node_def)

section \<open>Failures of GetCurrentBlock\<close>

text \<open>
  Claim C2, as amended. For each cause of failure (the transport, the envelope's
  decoding, a JSON-RPC error, the result's decoding, the hex string's parsing) the
  snapshots' \<^verbatim>\<open>GetCurrentBlock\<close> returns that error to its caller, and \<^verbatim>\<open>GetCurrentBlock\<close>
  of \<^verbatim>\<open>main.go\<close>, which has no error result, prints it and returns 0.
\<close>

theorem GetCurrentBlock_failure_paths:
  "let body = requestBody e ''eth_blockNumber'' [];
       w1 = w\<lparr>posted := posted w @ [body]\<rparr>;
       p = Post e (Endpoint (parser w)) ''application/json'' body;
       outcome = (\<lambda>err w'.
         GetCurrentBlock_part001 e w = (Returns (Inl err), w') \<and>
         GetCurrentBlock e w = (Returns 0, Printf (PrintError err) w'))
   in (\<forall>err. p = Inl err \<longrightarrow> outcome (PostError err) w1)
    \<and> (\<forall>resp err. p = Inr resp \<and> Decode e resp = Inl err \<longrightarrow>
          outcome (DecodeError err) (Printf (PrintDecodeFailed err) w1))
    \<and> (\<forall>resp response payload.
          p = Inr resp \<and> Decode e resp = Inr response \<and> Error response = Some payload \<longrightarrow>
          outcome (JSONRPCError payload) w1)
    \<and> (\<forall>resp response err.
          p = Inr resp \<and> Decode e resp = Inr response \<and> Error response = None \<and>
          Unmarshal_string e (Result response) = Inl err \<longrightarrow>
          outcome (ParseDetailsError err) w1)
    \<and> (\<forall>resp response blockNumberHex err.
          p = Inr resp \<and> Decode e resp = Inr response \<and> Error response = None \<and>
          Unmarshal_string e (Result response) = Inr blockNumberHex \<and>
          ParseHexUint64 blockNumberHex = Returns (Inl err) \<longrightarrow>
          outcome err w1)"
proof -
  let ?body = "requestBody e ''eth_blockNumber'' []"
  let ?w1 = "w\<lparr>posted := posted w @ [?body]\<rparr>"
  let ?p = "Post e (Endpoint (parser w)) ''application/json'' ?body"
  let ?call = "callRPCMethod e ''eth_blockNumber'' [] (Unmarshal_string e) w"
  have failed: "GetCurrentBlock_part001 e w = (Returns (Inl err), w') \<and>
      GetCurrentBlock e w = (Returns 0, Printf (PrintError err) w')"
    if "?call = (Inl err, w')" for err w'
    using that by (simp add: GetCurrentBlock_def GetCurrentBlock_part001_def)
  have parse: "GetCurrentBlock_part001 e w = (Returns (Inl err), w') \<and>
      GetCurrentBlock e w = (Returns 0, Printf (PrintError err) w')"
    if "?call = (Inr blockNumberHex, w')" and "ParseHexUint64 blockNumberHex = Returns (Inl err)"
    for blockNumberHex err w'
    using that by (simp add: GetCurrentBlock_def GetCurrentBlock_part001_def)
  have transport: "GetCurrentBlock_part001 e w = (Returns (Inl (PostError err)), ?w1) \<and>
      GetCurrentBlock e w = (Returns 0, Printf (PrintError (PostError err)) ?w1)"
    if "?p = Inl err" for err
  proof -
    from that have "?call = (Inl (PostError err), ?w1)"
      by (simp add: callRPCMethod_def Let_def)
    then show ?thesis by (rule failed)
  qed
  have envelope: "GetCurrentBlock_part001 e w =
        (Returns (Inl (DecodeError err)), Printf (PrintDecodeFailed err) ?w1) \<and>
      GetCurrentBlock e w =
        (Returns 0, Printf (PrintError (DecodeError err)) (Printf (PrintDecodeFailed err) ?w1))"
    if "?p = Inr resp" and "Decode e resp = Inl err" for resp err
  proof -
    from that have "?call = (Inl (DecodeError err), Printf (PrintDecodeFailed err) ?w1)"
      by (simp add: callRPCMethod_def Let_def)
    then show ?thesis by (rule failed)
  qed
  have rpc: "GetCurrentBlock_part001 e w = (Returns (Inl (JSONRPCError payload)), ?w1) \<and>
      GetCurrentBlock e w = (Returns 0, Printf (PrintError (JSONRPCError payload)) ?w1)"
    if "?p = Inr resp" and "Decode e resp = Inr response" and "Error response = Some payload"
    for resp response payload
  proof -
    from that have "?call = (Inl (JSONRPCError payload), ?w1)"
      by (simp add: callRPCMethod_def Let_def)
    then show ?thesis by (rule failed)
  qed
  have details: "GetCurrentBlock_part001 e w = (Returns (Inl (ParseDetailsError err)), ?w1) \<and>
      GetCurrentBlock e w = (Returns 0, Printf (PrintError (ParseDetailsError err)) ?w1)"
    if "?p = Inr resp" and "Decode e resp = Inr response" and "Error response = None"
      and "Unmarshal_string e (Result response) = Inl err"
    for resp response err
  proof -
    from that have "?call = (Inl (ParseDetailsError err), ?w1)"
      by (simp add: callRPCMethod_def Let_def)
    then show ?thesis by (rule failed)
  qed
  have hex: "GetCurrentBlock_part001 e w = (Returns (Inl err), ?w1) \<and>
      GetCurrentBlock e w = (Returns 0, Printf (PrintError err) ?w1)"
    if "?p = Inr resp" and "Decode e resp = Inr response" and "Error response = None"
      and "Unmarshal_string e (Result response) = Inr blockNumberHex"
      and "ParseHexUint64 blockNumberHex = Returns (Inl err)"
    for resp response blockNumberHex err
  proof -
    from that have "?call = (Inr blockNumberHex, ?w1)"
      by (simp add: callRPCMethod_def Let_def)
    then show ?thesis using that(5) by (rule parse)
  qed
  show ?thesis
    unfolding Let_def
    using transport envelope rpc details hex by blast
qed

text \<open>
  The theorem at one node per cause: unreachable, a body that is no envelope, an envelope
  with an error, a result that is no string, and the string \<open>0xzz\<close>.
\<close>

theorem GetCurrentBlock_failure_paths_witness:
  "Post mock_down (Endpoint (parser world0)) ''application/json''
      (requestBody mock_down ''eth_blockNumber'' []) = Inl ''connection refused''
   \<and> fst (GetCurrentBlock_part001 mock_down world0) = Returns (Inl (PostError ''connection refused''))
   \<and> fst (GetCurrentBlock mock_down world0) = Returns 0
   \<and> stdout (snd (GetCurrentBlock mock_down world0)) = [PrintError (PostError ''connection refused'')]
   \<and> fst (GetCurrentBlock_part001 mock_garbled world0) = Returns (Inl (DecodeError ''invalid character''))
   \<and> fst (GetCurrentBlock mock_garbled world0) = Returns 0
   \<and> fst (GetCurrentBlock_part001 (mock_rpc_error (JString ''busy'')) world0)
       = Returns (Inl (JSONRPCError (JString ''busy'')))
   \<and> fst (GetCurrentBlock (mock_rpc_error (JString ''busy'')) world0) = Returns 0
   \<and> fst (GetCurrentBlock_part001 mock_bad_result world0)
       = Returns (Inl (ParseDetailsError ''cannot unmarshal''))
   \<and> fst (GetCurrentBlock mock_bad_result world0) = Returns 0
   \<and> ParseHexUint64 ''0xzz'' = Returns (Inl (SyntaxError ''zz''))
   \<and> fst (GetCurrentBlock_part001 (mock_node ''0xzz'' mock_block) world0)
       = Returns (Inl (SyntaxError ''zz''))
   \<and> fst (GetCurrentBlock (mock_node ''0xzz'' mock_block) world0) = Returns 0"
  using GetCurrentBlock_failure_paths [of mock_down world0]
    GetCurrentBlock_failure_paths [of mock_garbled world0]
    GetCurrentBlock_failure_paths [of "mock_rpc_error (JString ''busy'')" world0]
    GetCurrentBlock_failure_paths [of mock_bad_result world0]
    GetCurrentBlock_failure_paths [of "mock_node ''0xzz'' mock_block" world0]
  by (simp add: Let_def mock_down_Post world0_def mock_garbled_def mock_rpc_error_def
      mock_bad_result_def mock_node_def ParseHexUint64_0xzz)

text \<open>
  Claim C2 as stated fails on \<^verbatim>\<open>main.go\<close>: with the node unreachable the caller receives 0,
  the value it also receives from a node at height 0, and the error is only printed.
\<close>

theorem GetCurrentBlock_swallows_counterexample:
  "fst (GetCurrentBlock mock_down world0) = Returns 0
   \<and> stdout (snd (GetCurrentBlock mock_down world0)) = [PrintError (PostError ''connection refused'')]
   \<and> fst (GetCurrentBlock (mock_node ''0x0'' mock_block) world0) = Returns 0"
  by (simp add: GetCurrentBlock_def callRPCMethod_def Let_def mock_down_Post world0_def
      mock_node_def ParseHexUint64_def ParseUint_def digit_def)

section \<open>The subscription gate\<close>

text \<open>
  Claim C3, as amended. For an address that is not subscribed, \<^verbatim>\<open>GetTransactions\<close> of
  \<^verbatim>\<open>main.go\<close> (the address not empty) prints the message and returns no transactions
  and no error value, without a network call; the first snapshot returns the
  not-subscribed error without a network call; the second snapshot has no check in the
  operation and posts the height request.
\<close>

theorem GetTransactions_not_subscribed:
  assumes "\<not> IsSubscriber (store (parser w)) address"
  shows "(address \<noteq> [] \<longrightarrow>
            GetTransactions e address w = (Returns [], Printf (PrintNotSubscribed address) w)
          \<and> posted (snd (GetTransactions e address w)) = posted w)
    \<and> GetTransactions_part001a e address w = (Returns (Inl (NotSubscribedError address)), w)
    \<and> posted (snd (GetTransactions_part001b e address w)) \<noteq> posted w"
proof -
  have "posted (snd (GetTransactions_part001b e address w)) \<noteq> posted w"
    using GetTransactions_part001b_posted [of e address w]
    by auto
  with assms show ?thesis
    by (simp add: GetTransactions_def GetTransactions_part001a_def)
qed

theorem GetTransactions_not_subscribed_witness:
  "\<not> IsSubscriber (store (parser world_X)) ''Q'' \<and> ''Q'' \<noteq> []
   \<and> GetTransactions (mock_node ''0x5'' mock_block) ''Q'' world_X
       = (Returns [], Printf (PrintNotSubscribed ''Q'') world_X)
   \<and> posted (snd (GetTransactions (mock_node ''0x5'' mock_block) ''Q'' world_X)) = posted world_X
   \<and> GetTransactions_part001a (mock_node ''0x5'' mock_block) ''Q'' world_X
       = (Returns (Inl (NotSubscribedError ''Q'')), world_X)"
  using GetTransactions_not_subscribed [of world_X "''Q''" "mock_node ''0x5'' mock_block"]
  by (simp add: IsSubscriber_def world_X_store)

text \<open>
  Claim C3 as stated fails: in \<^verbatim>\<open>main.go\<close> the caller of the query for the unsubscribed
  \<open>Q\<close> receives the empty list, as the caller of the query for the subscribed \<open>X\<close> on a
  block without transactions does; in the second snapshot the query for \<open>Q\<close> goes to
  the network.
\<close>

theorem GetTransactions_not_subscribed_counterexample:
  "\<not> IsSubscriber (store (parser world_X)) ''Q'' \<and> ''Q'' \<noteq> []
   \<and> fst (GetTransactions (mock_node ''0x5'' mock_block) ''Q'' world_X) = Returns []
   \<and> IsSubscriber (store (parser world_X)) ''X''
   \<and> fst (GetTransactions (mock_node ''0x5'' \<lparr>Hash = ''0xb5'', Transactions = []\<rparr>) ''X'' world_X)
       = Returns []
   \<and> posted (snd (GetTransactions_part001b (mock_node ''0x5'' mock_block) ''Q'' world_X)) \<noteq> []"
  by (simp add: GetTransactions_def IsSubscriber_def world_X_store mock_node_height_5
      mock_node_getBlock GetTransactions_part001b_def
      GetCurrentBlock_part001_def mock_node_blockNumber ParseHexUint64_0x5)

section \<open>The filter\<close>

text \<open>
  Claim C4, as amended. For a subscribed, non-empty address, when the height obtained
  is not 0 and the node's block for it decodes to \<open>block\<close>, \<^verbatim>\<open>GetTransactions\<close> of
  \<^verbatim>\<open>main.go\<close> returns the transactions of \<open>block\<close> whose sender or receiver is the address,
  in the block's order.
\<close>

theorem GetTransactions_filter:
  assumes "address \<noteq> []"
    and "IsSubscriber (store (parser w)) address"
    and "GetCurrentBlock e w = (Returns blockNumber, w1)"
    and "blockNumber \<noteq> 0"
    and "callRPCMethod e ''eth_getBlockByNumber''
           [ParamString (Sprintf_0x blockNumber), ParamBool True] (Unmarshal_Block e) w1
         = (Inr block, w2)"
  shows "GetTransactions e address w =
     (Returns (filter (\<lambda>t. From t = address \<or> To t = address) (Transactions block)), w2)"
  using assms
  by (simp add: GetTransactions_def ParseToAnySlice_def GetTransactions_range_filter)

text \<open>
  The example of the specification: height \<open>0x5\<close>, transactions \<open>X \<rightarrow> Y\<close>, \<open>Z \<rightarrow> X\<close>,
  \<open>W \<rightarrow> V\<close>, query for \<open>X\<close>.
\<close>

theorem GetTransactions_filter_witness:
  "''X'' \<noteq> [] \<and> IsSubscriber (store (parser world_X)) ''X''
   \<and> fst (GetCurrentBlock (mock_node ''0x5'' mock_block) world_X) = Returns 5
   \<and> (5 :: uint64) \<noteq> 0
   \<and> fst (callRPCMethod (mock_node ''0x5'' mock_block) ''eth_getBlockByNumber''
         [ParamString (Sprintf_0x 5), ParamBool True] (Unmarshal_Block (mock_node ''0x5'' mock_block))
         (snd (GetCurrentBlock (mock_node ''0x5'' mock_block) world_X))) = Inr mock_block
   \<and> fst (GetTransactions (mock_node ''0x5'' mock_block) ''X'' world_X)
       = Returns [tx ''0x01'' ''X'' ''Y'', tx ''0x02'' ''Z'' ''X'']"
  using GetTransactions_filter [of "''X''" world_X "mock_node ''0x5'' mock_block" 5 _ mock_block,
      OF _ _ mock_node_height_5 _ mock_node_getBlock]
  by (simp add: IsSubscriber_def world_X_store mock_node_height_5 mock_node_getBlock
      mock_block_def tx_def)

text \<open>
  Claim C4 as stated fails at height 0: the node would return a block with two
  transactions of \<open>X\<close>, and \<^verbatim>\<open>GetTransactions\<close> of \<^verbatim>\<open>main.go\<close> prints
  \<^verbatim>\<open>blockNumber is 0\<close> and returns none.
\<close>

theorem GetTransactions_height_zero_counterexample:
  "IsSubscriber (store (parser world_X)) ''X''
   \<and> fst (GetCurrentBlock (mock_node ''0x0'' mock_block) world_X) = Returns 0
   \<and> Unmarshal_Block (mock_node ''0x0'' mock_block) ''result'' = Inr mock_block
   \<and> filter (\<lambda>t. From t = ''X'' \<or> To t = ''X'') (Transactions mock_block)
       = [tx ''0x01'' ''X'' ''Y'', tx ''0x02'' ''Z'' ''X'']
   \<and> fst (GetTransactions (mock_node ''0x0'' mock_block) ''X'' world_X) = Returns []
   \<and> stdout (snd (GetTransactions (mock_node ''0x0'' mock_block) ''X'' world_X))
       = [PrintBlockNumberZero]"
proof (intro conjI)
  show "IsSubscriber (store (parser world_X)) ''X''"
    by (simp add: IsSubscriber_def world_X_store)
  show "fst (GetCurrentBlock (mock_node ''0x0'' mock_block) world_X) = Returns 0"
    by (simp add: mock_node_height_0)
  show "Unmarshal_Block (mock_node ''0x0'' mock_block) ''result'' = Inr mock_block"
    by (simp add: mock_node_def)
  show "filter (\<lambda>t. From t = ''X'' \<or> To t = ''X'') (Transactions mock_block)
      = [tx ''0x01'' ''X'' ''Y'', tx ''0x02'' ''Z'' ''X'']"
    by (simp add: mock_block_def tx_def)
  show "fst (GetTransactions (mock_node ''0x0'' mock_block) ''X'' world_X) = Returns []"
    by (simp add: GetTransactions_def IsSubscriber_def world_X_store mock_node_height_0)
  show "stdout (snd (GetTransactions (mock_node ''0x0'' mock_block) ''X'' world_X))
      = [PrintBlockNumberZero]"
    by (simp add: GetTransactions_def IsSubscriber_def world_X_store mock_node_height_0
        world_X_fields Printf_def)
qed

section \<open>The empty address\<close>

text \<open>
  Claim C6, as amended. In \<^verbatim>\<open>main.go\<close>, \<^verbatim>\<open>SubscribeAddress\<close> of the empty string prints
  the message, returns false and leaves the parser as it is, and \<^verbatim>\<open>GetTransactions\<close> of
  the empty string prints the message and returns no transactions, both without a
  network call. \<^verbatim>\<open>UnsubscribeAddress\<close>, which only the second snapshot has, does not check
  its argument: it deletes the key and returns false, without a network call.
\<close>

theorem empty_address_rejected:
  "SubscribeAddress [] w = (False, Printf PrintNeedAddress w)
   \<and> GetTransactions e [] w = (Returns [], Printf PrintNeedAddress w)
   \<and> parser (Printf PrintNeedAddress w) = parser w
   \<and> posted (Printf PrintNeedAddress w) = posted w
   \<and> UnsubscribeAddress [] w = (False, set_Subscribers ((Subscribers w)([] := None)) w)
   \<and> posted (snd (UnsubscribeAddress [] w)) = posted w"
  by (simp add: SubscribeAddress_def GetTransactions_def UnsubscribeAddress_def Let_def
      map_index_def)

theorem empty_address_rejected_witness:
  "SubscribeAddress [] world0 = (False, world0\<lparr>stdout := [PrintNeedAddress]\<rparr>)
   \<and> GetTransactions (mock_node ''0x5'' mock_block) [] world_X
       = (Returns [], world_X\<lparr>stdout := [PrintNeedAddress]\<rparr>)"
  using empty_address_rejected [of world0 "mock_node ''0x5'' mock_block"]
    empty_address_rejected [of world_X "mock_node ''0x5'' mock_block"]
  by (simp add: Printf_def world0_def world_X_fields)

text \<open>
  Claim C6 as stated fails on the snapshots: \<^verbatim>\<open>SubscribeAddress\<close> of the empty string
  succeeds and adds it to the registry, and \<^verbatim>\<open>UnsubscribeAddress\<close> of the empty string
  then removes it.
\<close>

theorem empty_address_snapshot_counterexample:
  "fst (SubscribeAddress_part001b [] world0) = True
   \<and> map_index (Subscribers (snd (SubscribeAddress_part001b [] world0))) [] = True
   \<and> fst (SubscribeAddress_part001a [] world0) = True
   \<and> IsSubscriber (store (parser (snd (SubscribeAddress_part001a [] world0)))) [] = True
   \<and> map_index (Subscribers (snd (UnsubscribeAddress [] (snd (SubscribeAddress_part001b [] world0))))) []
       = False"
  by (simp add: SubscribeAddress_part001b_def SubscribeAddress_part001a_def UnsubscribeAddress_def
      Let_def map_index_def SetSubscriber_def IsSubscriber_def)

section \<open>Subscribing\<close>

text \<open>
  Claim C7. \<^verbatim>\<open>SetSubscriber\<close> returns no error, the address is a subscriber afterwards,
  and the store of an address that is already a subscriber does not change. The same
  holds of \<^verbatim>\<open>SubscribeAddress\<close> in \<^verbatim>\<open>main.go\<close> for every non-empty address and of
  \<^verbatim>\<open>SubscribeAddress\<close> in the second snapshot for every address.
\<close>

theorem subscribe_then_member:
  "fst (SetSubscriber address memory) = None
   \<and> IsSubscriber (snd (SetSubscriber address memory)) address
   \<and> (IsSubscriber memory address \<longrightarrow> snd (SetSubscriber address memory) = memory)
   \<and> (address \<noteq> [] \<longrightarrow>
        fst (SubscribeAddress address w) \<and>
        IsSubscriber (store (parser (snd (SubscribeAddress address w)))) address \<and>
        (IsSubscriber (store (parser w)) address \<longrightarrow> snd (SubscribeAddress address w) = w))
   \<and> fst (SubscribeAddress_part001b address w)
   \<and> map_index (Subscribers (snd (SubscribeAddress_part001b address w))) address
   \<and> (map_index (Subscribers w) address \<longrightarrow> snd (SubscribeAddress_part001b address w) = w)"
proof -
  have idem: "m(address \<mapsto> True) = m" if "(case m address of None \<Rightarrow> False | Some v \<Rightarrow> v)"
    for m :: "string \<rightharpoonup> bool"
    using that by (auto split: option.splits)
  have 1: "IsSubscriber memory address \<longrightarrow> snd (SetSubscriber address memory) = memory"
    by (simp add: IsSubscriber_def SetSubscriber_def idem)
  have 2: "IsSubscriber (store (parser w)) address \<longrightarrow> snd (SubscribeAddress address w) = w"
    if "address \<noteq> []"
    using that by (simp add: IsSubscriber_def SubscribeAddress_def SetSubscriber_def idem)
  have 3: "map_index (Subscribers w) address \<longrightarrow> snd (SubscribeAddress_part001b address w) = w"
    by (simp add: map_index_def SubscribeAddress_part001b_def Let_def idem set_Subscribers_same)
  show ?thesis
    using 1 2 3
    by (simp add: SetSubscriber_def IsSubscriber_def SubscribeAddress_def
        SubscribeAddress_part001b_def Let_def map_index_def)
qed

theorem subscribe_then_member_witness:
  "''X'' \<noteq> [] \<and> fst (SubscribeAddress ''X'' world0)
   \<and> IsSubscriber (store (parser world_X)) ''X''
   \<and> snd (SubscribeAddress ''X'' world_X) = world_X
   \<and> snd (SetSubscriber ''X'' (store (parser world_X))) = store (parser world_X)"
  using subscribe_then_member [of "''X''" "store (parser world_X)" world_X]
    subscribe_then_member [of "''X''" "store (parser world0)" world0]
  by (simp add: world_X_def)

section \<open>Unsubscribing\<close>

text \<open>
  Claim C8. In the second snapshot, after \<^verbatim>\<open>SubscribeAddress\<close> and then
  \<^verbatim>\<open>UnsubscribeAddress\<close> of an address, the address is not subscribed and
  \<^verbatim>\<open>UnsubscribeAddress\<close> has returned false, the membership after the deletion; and
  \<^verbatim>\<open>UnsubscribeAddress\<close> of an address that is no key of the map leaves the state as it
  is.
\<close>

theorem unsubscribe_after_subscribe:
  "fst (UnsubscribeAddress address (snd (SubscribeAddress_part001b address w))) = False
   \<and> map_index (Subscribers (snd (UnsubscribeAddress address
        (snd (SubscribeAddress_part001b address w))))) address = False
   \<and> IsSubscriber (store (parser (snd (UnsubscribeAddress address
        (snd (SubscribeAddress_part001b address w)))))) address = False
   \<and> fst (UnsubscribeAddress address w) = False
   \<and> (address \<notin> dom (Subscribers w) \<longrightarrow> snd (UnsubscribeAddress address w) = w)"
proof -
  have "snd (UnsubscribeAddress address w) = w" if "address \<notin> dom (Subscribers w)"
  proof -
    from that have "(Subscribers w)(address := None) = Subscribers w"
      by (auto simp: fun_eq_iff)
    then show ?thesis
      by (simp add: UnsubscribeAddress_def Let_def set_Subscribers_same)
  qed
  moreover have "IsSubscriber (store (parser v)) a = map_index (Subscribers v) a" for v a
    by (simp add: IsSubscriber_def map_index_def Subscribers_def)
  ultimately show ?thesis
    by (simp add: UnsubscribeAddress_def SubscribeAddress_part001b_def Let_def map_index_def)
qed

theorem unsubscribe_after_subscribe_witness:
  "''X'' \<notin> dom (Subscribers world0) \<and> snd (UnsubscribeAddress ''X'' world0) = world0
   \<and> fst (UnsubscribeAddress ''X'' (snd (SubscribeAddress_part001b ''X'' world0))) = False
   \<and> map_index (Subscribers (snd (UnsubscribeAddress ''X''
        (snd (SubscribeAddress_part001b ''X'' world0))))) ''X'' = False"
  using unsubscribe_after_subscribe [of "''X''" world0]
  by (simp add: world0_Subscribers)

section \<open>Short strings\<close>

text \<open>
  Claim C10. \<^verbatim>\<open>ParseHexUint64\<close> panics on every string shorter than two bytes, and so do
  \<^verbatim>\<open>GetCurrentBlock\<close> (in \<^verbatim>\<open>main.go\<close> and in the snapshots) and \<^verbatim>\<open>GetTransactions\<close> when the
  node's result decodes to such a string.
\<close>

theorem short_hex_string_panics:
  assumes "length s < 2"
  shows "ParseHexUint64 s = Panics (SliceBoundsOutOfRange 2 (length s))
    \<and> (callRPCMethod e ''eth_blockNumber'' [] (Unmarshal_string e) w = (Inr s, w1) \<longrightarrow>
         GetCurrentBlock e w = (Panics (SliceBoundsOutOfRange 2 (length s)), w1)
       \<and> GetCurrentBlock_part001 e w = (Panics (SliceBoundsOutOfRange 2 (length s)), w1)
       \<and> (address \<noteq> [] \<and> IsSubscriber (store (parser w)) address \<longrightarrow>
            GetTransactions e address w = (Panics (SliceBoundsOutOfRange 2 (length s)), w1)))"
  using assms
  by (simp add: ParseHexUint64_def GetCurrentBlock_def GetCurrentBlock_part001_def
      GetTransactions_def)

theorem short_hex_string_panics_witness:
  "length ''0'' < 2 \<and> ParseHexUint64 ''0'' = Panics (SliceBoundsOutOfRange 2 1)
   \<and> ParseHexUint64 [] = Panics (SliceBoundsOutOfRange 2 0)
   \<and> fst (callRPCMethod (mock_node ''0'' mock_block) ''eth_blockNumber'' []
        (Unmarshal_string (mock_node ''0'' mock_block)) world0) = Inr ''0''
   \<and> fst (GetCurrentBlock (mock_node ''0'' mock_block) world0) = Panics (SliceBoundsOutOfRange 2 1)
   \<and> fst (GetCurrentBlock_part001 (mock_node ''0'' mock_block) world0)
       = Panics (SliceBoundsOutOfRange 2 1)
   \<and> ''X'' \<noteq> [] \<and> IsSubscriber (store (parser world_X)) ''X''
   \<and> fst (GetTransactions (mock_node ''0'' mock_block) ''X'' world_X)
       = Panics (SliceBoundsOutOfRange 2 1)"
  using short_hex_string_panics [where s = "''0''" and e = "mock_node ''0'' mock_block"
      and w = world0 and address = "[]"
      and ?w1.0 = "world0\<lparr>posted := posted world0 @
        [requestBody (mock_node ''0'' mock_block) ''eth_blockNumber'' []]\<rparr>"]
    short_hex_string_panics [where s = "''0''" and e = "mock_node ''0'' mock_block"
      and w = world_X and address = "''X''"
      and ?w1.0 = "world_X\<lparr>posted := posted world_X @
        [requestBody (mock_node ''0'' mock_block) ''eth_blockNumber'' []]\<rparr>"]
    short_hex_string_panics [where s = "[]"]
  by (simp add: mock_node_blockNumber IsSubscriber_def world_X_store)

end
